theory Spec2Isabelle
  imports Complex_Main "HOL-Library.Sublist"
begin

section \<open>Strings of the generator\<close>

text \<open>
  A JavaScript string is modelled as a \<open>string\<close>, one \<open>char\<close> per UTF-16 code unit;
  only the ASCII range is given a meaning (service names, method names and type
  expressions are program identifiers and TypeScript type texts).
\<close>

text \<open>\<open>String.prototype.toLowerCase\<close> on one code unit, ASCII letters only.\<close>

definition toLowerCase :: "char \<Rightarrow> char" where
  "toLowerCase c =
     (case map_of (zip ''ABCDEFGHIJKLMNOPQRSTUVWXYZ'' ''abcdefghijklmnopqrstuvwxyz'') c of
        Some l \<Rightarrow> l
      | None \<Rightarrow> c)"

text \<open>
  \<open>serviceName.replace(/Service$|$/, 'Client')\<close>: the regular expression is not global,
  so the leftmost match is replaced. The matcher is tried at each start position from the
  left; at a position the alternative \<open>Service$\<close> is tried first (it matches when exactly
  \<open>Service\<close> remains) and then the alternative \<open>$\<close> (it matches the empty string when
  nothing remains).
\<close>

fun replace_Service_end :: "string \<Rightarrow> string" where
  "replace_Service_end [] = ''Client''"
| "replace_Service_end (c # cs) =
     (if c # cs = ''Service'' then ''Client'' else c # replace_Service_end cs)"

definition clientName :: "string \<Rightarrow> string" where
  "clientName serviceName = replace_Service_end serviceName"

text \<open>
  \<open>s.charAt(0).toLowerCase() + s.substr(1)\<close>; on the empty string both parts are
  empty.
\<close>

definition lower_first :: "string \<Rightarrow> string" where
  "lower_first s = (case s of [] \<Rightarrow> [] | c # cs \<Rightarrow> toLowerCase c # cs)"

definition namespaceName :: "string \<Rightarrow> string" where
  "namespaceName serviceName = lower_first serviceName"

text \<open>\<open>/^Promise</.test(typedef)\<close>\<close>

definition test_Promise_open :: "string \<Rightarrow> bool" where
  "test_Promise_open typedef = (take 8 typedef = ''Promise<'')"

text \<open>
  \<open>promisedType\<close>: wraps the type text in \<open>Promise<...>\<close> when it does not start with
  \<open>Promise<\<close>.
\<close>

definition promisedType :: "string \<Rightarrow> string" where
  "promisedType typedef =
     (if \<not> test_Promise_open typedef then ''Promise<'' @ typedef @ ''>'' else typedef)"

text \<open>
  The lazy group \<open>([\s\S]+?)\<close> of \<open>/^Promise<([\s\S]+?)>$/\<close>: having consumed \<open>acc\<close>
  (at least one character), the matcher first tries to finish with \<open>>\<close> at the end of
  the input, and otherwise lets the group take one more character.
\<close>

fun lazy_group :: "string \<Rightarrow> string \<Rightarrow> string option" where
  "lazy_group acc [] = None"
| "lazy_group acc (c # cs) =
     (if c = CHR ''>'' \<and> cs = [] then Some acc else lazy_group (acc @ [c]) cs)"

text \<open>
  \<open>match_Promise\<close>: the capture of \<open>/^Promise<([\s\S]+?)>$/\<close> on the whole text, when
  it matches.
\<close>

definition match_Promise :: "string \<Rightarrow> string option" where
  "match_Promise typedef =
     (if take 8 typedef = ''Promise<''
      then (case drop 8 typedef of [] \<Rightarrow> None | c # cs \<Rightarrow> lazy_group [c] cs)
      else None)"

text \<open>\<open>cleanType\<close>: \<open>typedef.replace(/^Promise<([\s\S]+?)>$/, '$1')\<close>.\<close>

definition cleanType :: "string \<Rightarrow> string" where
  "cleanType typedef = (case match_Promise typedef of Some g \<Rightarrow> g | None \<Rightarrow> typedef)"

text \<open>The ASCII members of the class \<open>\s\<close>: tab, line feed, vertical tab, form feed,
  carriage return and space.\<close>

definition is_space :: "char \<Rightarrow> bool" where
  "is_space c = (c \<in> set [CHR 0x09, CHR 0x0A, CHR 0x0B, CHR 0x0C, CHR 0x0D, CHR 0x20])"

text \<open>\<open>.replace(/\r?\n/g, ' ')\<close>\<close>

fun replace_newlines :: "string \<Rightarrow> string" where
  "replace_newlines [] = []"
| "replace_newlines [a] = (if a = CHR 0x0A then [CHR 0x20] else [a])"
| "replace_newlines (a # b # cs) =
     (if a = CHR 0x0D \<and> b = CHR 0x0A then CHR 0x20 # replace_newlines cs
      else if a = CHR 0x0A then CHR 0x20 # replace_newlines (b # cs)
      else a # replace_newlines (b # cs))"

text \<open>\<open>.replace(/\s{2,}/g, ' ')\<close>: every maximal run of two or more white-space
  characters becomes one space; a single white-space character stays as it is.\<close>

function collapse_spaces :: "string \<Rightarrow> string" where
  "collapse_spaces [] = []"
| "collapse_spaces [a] = [a]"
| "collapse_spaces (a # b # cs) =
     (if is_space a \<and> is_space b then CHR 0x20 # collapse_spaces (dropWhile is_space cs)
      else a # collapse_spaces (b # cs))"
  by pat_completeness auto
termination
  by (relation "measure length") (auto simp: less_Suc_eq_le intro: le_trans [OF length_dropWhile_le])

section \<open>Service descriptions and the generated methods\<close>

record ArgDescription =
  arg_description :: string
  arg_name :: string
  arg_type :: string
  arg_tsType :: string
  arg_isOptional :: bool

record ReturnValueDescription =
  ret_description :: string
  ret_type :: string
  ret_tsType :: string

record MethodDescription =
  m_arguments :: "ArgDescription list"
  m_description :: string
  m_returns :: ReturnValueDescription

text \<open>\<open>methods\<close> is an object; \<open>Object.keys\<close> walks it in insertion order, so it is kept
  as an association list.\<close>

record ServiceDescription =
  svc_name :: string
  svc_methods :: "(string \<times> MethodDescription) list"

text \<open>The argument pushed by the generator.\<close>

definition delayArg :: ArgDescription where
  "delayArg =
     \<lparr> arg_description =
         ''if passed the method will be called with the specified delay over message queue'',
       arg_name = ''delay'',
       arg_type = ''IMQDelay'',
       arg_tsType = ''IMQDelay'',
       arg_isOptional = True \<rparr>"

text \<open>
  \<open>const lastArg = args[args.length - 1]; if (lastArg && lastArg.type !== 'IMQDelay')
  args.push({...})\<close>: on an empty list \<open>lastArg\<close> is \<open>undefined\<close>, which is falsy.
\<close>

definition pushDelay :: "ArgDescription list \<Rightarrow> ArgDescription list" where
  "pushDelay args =
     (case (if args = [] then None else Some (last args)) of
        None \<Rightarrow> args
      | Some lastArg \<Rightarrow> if arg_type lastArg \<noteq> ''IMQDelay'' then args @ [delayArg] else args)"

text \<open>\<open>retType\<close> of the generator loop, with the bare \<open>Promise\<close> completed.\<close>

definition retType :: "ReturnValueDescription \<Rightarrow> string" where
  "retType ret =
     (let t = collapse_spaces (replace_newlines (ret_tsType ret))
      in if t = ''Promise'' then ''Promise<any>'' else t)"

text \<open>The parameter loop: \<open>name\<close>, \<open>?\<close> when optional, \<open>: \<close>, the type, and \<open>, \<close>
  between parameters.\<close>

definition renderArg :: "ArgDescription \<Rightarrow> string" where
  "renderArg arg =
     arg_name arg @ (if arg_isOptional arg then ''?'' else '''') @ '': '' @
     collapse_spaces (arg_tsType arg)"

fun renderArgs :: "ArgDescription list \<Rightarrow> string" where
  "renderArgs [] = []"
| "renderArgs [arg] = renderArg arg"
| "renderArgs (arg # rest) = renderArg arg @ '', '' @ renderArgs rest"

text \<open>The parameters a generated method is declared with.\<close>

definition methodParams :: "MethodDescription \<Rightarrow> ArgDescription list" where
  "methodParams m = pushDelay (m_arguments m)"

text \<open>The return type a generated method is declared with, and the type argument of
  its \<open>remoteCall\<close>.\<close>

definition methodReturnType :: "MethodDescription \<Rightarrow> string" where
  "methodReturnType m = promisedType (retType (m_returns m))"

definition methodCallType :: "MethodDescription \<Rightarrow> string" where
  "methodCallType m = cleanType (retType (m_returns m))"

text \<open>The declaration and body the generator emits for one method (after its doc
  comment and decorators).\<close>

definition methodSource :: "string \<Rightarrow> MethodDescription \<Rightarrow> string" where
  "methodSource methodName m =
     ''        public async '' @ methodName @ ''('' @ renderArgs (methodParams m) @
     ''): '' @ methodReturnType m @ '' {'' @ [CHR 0x0A] @
     replicate 12 (CHR 0x20) @
     ''return await this.remoteCall<'' @ methodCallType m @ ''>(...arguments);'' @
     [CHR 0x0A] @ ''        }'' @ [CHR 0x0A, CHR 0x0A]"

text \<open>The methods the generator emits: all but \<open>describe\<close>, in order.\<close>

definition generatedMethods :: "ServiceDescription \<Rightarrow> (string \<times> MethodDescription) list" where
  "generatedMethods svc = filter (\<lambda>(methodName, m). methodName \<noteq> ''describe'') (svc_methods svc)"

text \<open>\<open>description.service.name\<close> gives both names of the generated module.\<close>

definition generatedNames :: "ServiceDescription \<Rightarrow> string \<times> string" where
  "generatedNames svc = (clientName (svc_name svc), namespaceName (svc_name svc))"

section \<open>Numbers and delays\<close>

text \<open>
  A JavaScript number is a finite value, one of the two infinities, or NaN. Finite
  values are kept as rationals. The result of an arithmetic operation overflows to an
  infinity where round-to-nearest does so for binary64 (from \<open>2^1024 - 2^970\<close> on);
  below that the result is kept exact: the rounding of a finite result to 53 bits is
  not modelled, nor is the sign of zero (\<open>-0 < 0\<close> is false, as \<open>0 < 0\<close> is).
\<close>

datatype jsnumber = Finite rat | PosInfinity | NegInfinity | NaN

definition js_round :: "rat \<Rightarrow> jsnumber" where
  "js_round x =
     (if 2 ^ 1024 - 2 ^ 970 \<le> x then PosInfinity
      else if x \<le> - (2 ^ 1024 - 2 ^ 970) then NegInfinity
      else Finite x)"

text \<open>\<open>a * k\<close> for a numeric literal \<open>k\<close>.\<close>

fun js_times :: "jsnumber \<Rightarrow> rat \<Rightarrow> jsnumber" where
  "js_times (Finite a) k = js_round (a * k)"
| "js_times PosInfinity k = (if 0 < k then PosInfinity else if k < 0 then NegInfinity else NaN)"
| "js_times NegInfinity k = (if 0 < k then NegInfinity else if k < 0 then PosInfinity else NaN)"
| "js_times NaN k = NaN"

fun isFinite :: "jsnumber \<Rightarrow> bool" where
  "isFinite (Finite x) = True"
| "isFinite PosInfinity = False"
| "isFinite NegInfinity = False"
| "isFinite NaN = False"

fun isNaN :: "jsnumber \<Rightarrow> bool" where
  "isNaN NaN = True"
| "isNaN (Finite x) = False"
| "isNaN PosInfinity = False"
| "isNaN NegInfinity = False"

text \<open>\<open>x < 0\<close>: false on NaN.\<close>

fun less_than_zero :: "jsnumber \<Rightarrow> bool" where
  "less_than_zero (Finite x) = (x < 0)"
| "less_than_zero NegInfinity = True"
| "less_than_zero PosInfinity = False"
| "less_than_zero NaN = False"

datatype delay_unit = U_ms | U_s | U_m | U_h | U_d

record IMQDelay =
  timer :: jsnumber
  unit :: delay_unit

text \<open>The getter \<open>ms\<close> of \<open>IMQDelay\<close>.\<close>

definition ms :: "IMQDelay \<Rightarrow> jsnumber" where
  "ms d =
     (case unit d of
        U_ms \<Rightarrow> timer d
      | U_s \<Rightarrow> js_times (timer d) 1000
      | U_m \<Rightarrow> js_times (timer d) 60000
      | U_h \<Rightarrow> js_times (timer d) 3600000
      | U_d \<Rightarrow> js_times (timer d) 86400000)"

section \<open>Values, messages and the client\<close>

text \<open>
  The values that travel as call arguments, payloads and thrown errors. \<open>JError c m\<close>
  is an error object of class \<open>c\<close> with message \<open>m\<close>; \<open>JDelay d\<close> is an instance of
  \<open>IMQDelay\<close>.
\<close>

datatype jsvalue =
    JUndefined
  | JNull
  | JBool bool
  | JNumber jsnumber
  | JString string
  | JDelay IMQDelay
  | JError string string
  | JArray "jsvalue list"
  | JObject "(string \<times> jsvalue) list"

text \<open>The truthiness of a value, as \<open>if (v)\<close> and \<open>v || w\<close> test it.\<close>

fun truthy :: "jsvalue \<Rightarrow> bool" where
  "truthy JUndefined = False"
| "truthy JNull = False"
| "truthy (JBool b) = b"
| "truthy (JNumber n) = (n \<noteq> Finite 0 \<and> n \<noteq> NaN)"
| "truthy (JString s) = (s \<noteq> [])"
| "truthy (JDelay d) = True"
| "truthy (JError c m) = True"
| "truthy (JArray xs) = True"
| "truthy (JObject kvs) = True"

record IMQRPCRequest =
  rq_from :: string
  rq_method :: jsvalue
  rq_args :: "jsvalue list"

record IMQRPCResponse =
  rs_to :: string
  rs_request :: IMQRPCRequest
  rs_data :: jsvalue
  rs_error :: jsvalue

text \<open>The two functions a promise hands to its executor, for the promise numbered
  \<open>p\<close>.\<close>

datatype callback = ResolveOf nat | RejectOf nat

text \<open>The recognized options (the spread of the defaults and the given ones is taken
  as done).\<close>

record IMQClientOptions =
  opt_path :: string
  opt_write :: bool
  opt_compile :: bool
  opt_timeout :: nat

text \<open>Modelled from the spec: the transport handle of the message queue library, which
  is not part of this repository: its identity, whether it consumes messages, its
  broadcast subscription, its \<open>message\<close> listeners, the calls of its send primitive,
  and whether it was released.\<close>

record IMessageQueue =
  q_name :: string
  q_started :: bool
  q_subscription :: "string option"
  q_message_listeners :: nat
  q_send_calls :: "(string \<times> IMQRPCRequest \<times> jsnumber \<times> callback) list"
  q_destroyed :: bool

text \<open>Modelled from the spec: \<open>create(identity, options)\<close> gives a fresh handle.\<close>

definition IMQ_create :: "string \<Rightarrow> IMQClientOptions \<Rightarrow> IMessageQueue" where
  "IMQ_create ident opts =
     \<lparr> q_name = ident, q_started = False, q_subscription = None, q_message_listeners = 0,
       q_send_calls = [], q_destroyed = False \<rparr>"

text \<open>Modelled from the spec: \<open>handle.onMessage(callback)\<close> registers a listener for
  inbound frames.\<close>

definition imq_on_message :: "IMessageQueue \<Rightarrow> IMessageQueue" where
  "imq_on_message q = q\<lparr>q_message_listeners := Suc (q_message_listeners q)\<rparr>"

text \<open>Modelled from the spec: \<open>handle.start()\<close> and \<open>handle.stop()\<close> begin and suspend
  the consumption of messages.\<close>

definition imq_start :: "IMessageQueue \<Rightarrow> IMessageQueue" where
  "imq_start q = q\<lparr>q_started := True\<rparr>"

definition imq_stop :: "IMessageQueue \<Rightarrow> IMessageQueue" where
  "imq_stop q = q\<lparr>q_started := False\<rparr>"

text \<open>Modelled from the spec: \<open>handle.subscribe(channel, handler)\<close> and
  \<open>handle.unsubscribe()\<close> take and release the broadcast channel.\<close>

definition imq_subscribe :: "string \<Rightarrow> IMessageQueue \<Rightarrow> IMessageQueue" where
  "imq_subscribe channel q = q\<lparr>q_subscription := Some channel\<rparr>"

definition imq_unsubscribe :: "IMessageQueue \<Rightarrow> IMessageQueue" where
  "imq_unsubscribe q = q\<lparr>q_subscription := None\<rparr>"

text \<open>Modelled from the spec: \<open>handle.destroy()\<close> releases the transport handle: it
  stops consuming and drops the listeners of the handle.\<close>

definition imq_destroy :: "IMessageQueue \<Rightarrow> IMessageQueue" where
  "imq_destroy q = q\<lparr>q_started := False, q_message_listeners := 0, q_destroyed := True\<rparr>"

text \<open>Modelled from the spec: \<open>handle.send(destination, message, delayMs,
  onDeliveryFailure)\<close>; the call is recorded, its outcome (the correlation id, or what
  it throws) is an input of \<open>remoteCall\<close>.\<close>

definition imq_send ::
  "string \<Rightarrow> IMQRPCRequest \<Rightarrow> jsnumber \<Rightarrow> callback \<Rightarrow> IMessageQueue \<Rightarrow> IMessageQueue" where
  "imq_send destination message delay onFailure q =
     q\<lparr>q_send_calls := q_send_calls q @ [(destination, message, delay, onFailure)]\<rparr>"

text \<open>Modelled from the spec: \<open>releaseId(name, id)\<close> (the helper \<open>forgetPid\<close>) takes the
  identity out of the registry of the process identities.\<close>

definition forgetPid :: "string \<Rightarrow> nat \<Rightarrow> (string \<times> nat) list \<Rightarrow> (string \<times> nat) list" where
  "forgetPid pname pid registry = filter (\<lambda>entry. entry \<noteq> (pname, pid)) registry"

text \<open>
  The client. \<open>listeners\<close> is the registry of the event emitter the class extends (event
  name and listener); \<open>invoked\<close> and \<open>emitted\<close> record, in order, the calls of promise
  callbacks and the events emitted; \<open>pids\<close> is the registry of process identities and
  \<open>process_hooks\<close> the process events the constructor hooked \<open>terminate\<close> to.
\<close>

record IMQClient =
  options :: IMQClientOptions
  client_id :: nat
  baseName :: string
  imq :: IMessageQueue
  client_name :: string
  serviceName :: string
  resolvers :: "string \<rightharpoonup> callback \<times> callback"
  listeners :: "(jsvalue \<times> nat) list"
  invoked :: "(callback \<times> jsvalue) list"
  emitted :: "(jsvalue \<times> IMQRPCResponse) list"
  pids :: "(string \<times> nat) list"
  process_hooks :: "string list"

text \<open>How a function body ends: normally, or by throwing a value.\<close>

datatype completion = Normal | Throw jsvalue

text \<open>The decimal text of a number, as a template literal prints an identity.\<close>

fun decimal :: "nat \<Rightarrow> string" where
  "decimal n =
     (if n < 10 then [''0123456789'' ! n]
      else decimal (n div 10) @ [''0123456789'' ! (n mod 10)])"

text \<open>\<open>baseName.replace(/Client$/, '')\<close>: the leftmost position at which exactly
  \<open>Client\<close> remains is cut off.\<close>

fun replace_Client_end :: "string \<Rightarrow> string" where
  "replace_Client_end [] = []"
| "replace_Client_end (c # cs) =
     (if c # cs = ''Client'' then [] else c # replace_Client_end cs)"

text \<open>\<open>a || b\<close> on an optional string: \<open>undefined\<close> and the empty string are falsy.\<close>

definition or_else :: "string option \<Rightarrow> string \<Rightarrow> string" where
  "or_else a b = (case a of None \<Rightarrow> b | Some s \<Rightarrow> if s \<noteq> [] then s else b)"

text \<open>The signals the constructor hooks \<open>terminate\<close> to.\<close>

definition SIGNALS :: "string list" where
  "SIGNALS = [''SIGTERM'', ''SIGINT'', ''SIGHUP'', ''SIGBREAK'']"

text \<open>
  The constructor, for a class named \<open>constructor_name\<close>. The helpers \<open>osUuid\<close> and
  \<open>pid\<close> are not part of the sources: the text \<open>uuid\<close> and the identity \<open>new_id\<close> they
  return are inputs, and the identity is entered in the registry (the spec's
  \<open>acquireId\<close>).
\<close>

definition init_IMQClient ::
  "string \<Rightarrow> IMQClientOptions \<Rightarrow> string option \<Rightarrow> string option \<Rightarrow> string \<Rightarrow> nat \<Rightarrow>
   (string \<times> nat) list \<Rightarrow> IMQClient" where
  "init_IMQClient constructor_name opts service_name given_name uuid new_id registry =
     (let base = or_else given_name constructor_name;
          full = base @ ''-'' @ uuid @ ''-'' @ decimal new_id @ '':client''
      in \<lparr> options = opts,
           client_id = new_id,
           baseName = base,
           imq = IMQ_create full opts,
           client_name = full,
           serviceName = or_else service_name (replace_Client_end base),
           resolvers = Map.empty,
           listeners = [],
           invoked = [],
           emitted = [],
           pids = registry @ [(base, new_id)],
           process_hooks = SIGNALS @ [''exit''] \<rparr>)"

definition new_IMQClient ::
  "string \<Rightarrow> IMQClientOptions \<Rightarrow> string option \<Rightarrow> string option \<Rightarrow> string \<Rightarrow> nat \<Rightarrow>
   (string \<times> nat) list \<Rightarrow> jsvalue + IMQClient" where
  "new_IMQClient constructor_name opts service_name given_name uuid new_id registry =
     (if constructor_name = ''IMQClient''
      then Inl (JError ''TypeError''
                  ''IMQClient class is abstract and cannot be instantiated directly!'')
      else Inr (init_IMQClient constructor_name opts service_name given_name uuid new_id
                  registry))"

text \<open>\<open>class GeneratorClient extends IMQClient {}\<close>: the inherited constructor under
  another class name, so the abstract-class check passes.\<close>

definition new_GeneratorClient ::
  "IMQClientOptions \<Rightarrow> string option \<Rightarrow> string option \<Rightarrow> string \<Rightarrow> nat \<Rightarrow>
   (string \<times> nat) list \<Rightarrow> IMQClient" where
  "new_GeneratorClient opts service_name given_name uuid new_id registry =
     init_IMQClient ''GeneratorClient'' opts service_name given_name uuid new_id registry"

text \<open>Calling a promise callback with a value: the call is recorded.\<close>

definition invoke :: "callback \<Rightarrow> jsvalue \<Rightarrow> IMQClient \<Rightarrow> IMQClient" where
  "invoke f v c = c\<lparr>invoked := invoked c @ [(f, v)]\<rparr>"

text \<open>
  \<open>this.emit(event, payload)\<close> of the event emitter: the event goes to the listeners
  registered for it and the emission is recorded; an \<open>error\<close> event that has no
  listener is thrown instead.
\<close>

definition has_listener :: "jsvalue \<Rightarrow> IMQClient \<Rightarrow> bool" where
  "has_listener ev c = (ev \<in> set (map fst (listeners c)))"

definition emit :: "jsvalue \<Rightarrow> IMQRPCResponse \<Rightarrow> IMQClient \<Rightarrow> completion \<times> IMQClient" where
  "emit ev payload c =
     (if ev = JString ''error'' \<and> \<not> has_listener ev c
      then (Throw (JError ''Error'' ''Unhandled error.''), c)
      else (Normal, c\<lparr>emitted := emitted c @ [(ev, payload)]\<rparr>))"

text \<open>\<open>this.on(event, listener)\<close> of the event emitter.\<close>

definition addListener :: "jsvalue \<Rightarrow> nat \<Rightarrow> IMQClient \<Rightarrow> IMQClient" where
  "addListener ev l c = c\<lparr>listeners := listeners c @ [(ev, l)]\<rparr>"

text \<open>What destructuring \<open>undefined\<close> as an array throws.\<close>

definition not_iterable :: jsvalue where
  "not_iterable = JError ''TypeError'' ''undefined is not iterable''"

text \<open>
  The listener that \<open>start\<close> installs for the \<open>message\<close> event of the transport. The
  event is emitted when the registry has no entry for \<open>message.to\<close>; the entry is then
  destructured in either case.
\<close>

definition onMessage :: "IMQRPCResponse \<Rightarrow> IMQClient \<Rightarrow> completion \<times> IMQClient" where
  "onMessage message c =
     (case (if resolvers c (rs_to message) = None
            then emit (rq_method (rs_request message)) message c
            else (Normal, c)) of
        (Throw e, c1) \<Rightarrow> (Throw e, c1)
      | (Normal, c1) \<Rightarrow>
          (case resolvers c1 (rs_to message) of
             None \<Rightarrow> (Throw not_iterable, c1)
           | Some (resolve, reject) \<Rightarrow>
               (let c2 = c1\<lparr>resolvers := (resolvers c1)(rs_to message := None)\<rparr>
                in if truthy (rs_error message)
                   then (Normal, invoke reject (rs_error message) c2)
                   else (Normal, invoke resolve (rs_data message) c2))))"

definition start :: "IMQClient \<Rightarrow> IMQClient" where
  "start c = c\<lparr>imq := imq_start (imq_on_message (imq c))\<rparr>"

definition stop :: "IMQClient \<Rightarrow> IMQClient" where
  "stop c = c\<lparr>imq := imq_stop (imq c)\<rparr>"

definition subscribe :: "IMQClient \<Rightarrow> IMQClient" where
  "subscribe c = c\<lparr>imq := imq_subscribe (serviceName c) (imq c)\<rparr>"

definition unsubscribe :: "IMQClient \<Rightarrow> IMQClient" where
  "unsubscribe c = c\<lparr>imq := imq_unsubscribe (imq c)\<rparr>"

text \<open>\<open>destroy\<close>: unsubscribe, \<open>forgetPid\<close>, \<open>removeAllListeners\<close>, and the transport's
  \<open>destroy\<close>, in this order.\<close>

definition destroy :: "IMQClient \<Rightarrow> IMQClient" where
  "destroy c =
     (let c1 = c\<lparr>imq := imq_unsubscribe (imq c)\<rparr>;
          c2 = c1\<lparr>pids := forgetPid (baseName c1) (client_id c1) (pids c1)\<rparr>;
          c3 = c2\<lparr>listeners := []\<rparr>
      in c3\<lparr>imq := imq_destroy (imq c3)\<rparr>)"

text \<open>\<open>args.pop()\<close>: the last element and the rest; \<open>undefined\<close> on an empty list.\<close>

definition pop :: "jsvalue list \<Rightarrow> jsvalue \<times> jsvalue list" where
  "pop xs = (if xs = [] then (JUndefined, []) else (last xs, butlast xs))"

text \<open>
  \<open>remoteCall(...args)\<close>. \<open>p\<close> numbers the promise the call returns; \<open>sent\<close> is what
  the awaited send primitive does: it throws (or rejects with) a value, or it returns
  the correlation id.
\<close>

definition remoteCall :: "jsvalue list \<Rightarrow> nat \<Rightarrow> jsvalue + string \<Rightarrow> IMQClient \<Rightarrow> IMQClient" where
  "remoteCall arguments p sent c =
     (let (method, args1) = pop arguments;
          sender = client_name c;
          to = serviceName c;
          (delay, args) =
            (case (if args1 = [] then JUndefined else last args1) of
               JDelay d \<Rightarrow>
                 (let delay = ms d
                  in if \<not> isFinite delay \<or> isNaN delay \<or> less_than_zero delay
                     then Finite 0 else delay,
                  butlast args1)
             | _ \<Rightarrow> (Finite 0, args1));
          message = \<lparr> rq_from = sender, rq_method = method, rq_args = args \<rparr>;
          c1 = c\<lparr>imq := imq_send to message delay (RejectOf p) (imq c)\<rparr>
      in case sent of
           Inr ident \<Rightarrow> c1\<lparr>resolvers := (resolvers c1)(ident \<mapsto> (ResolveOf p, RejectOf p))\<rparr>
         | Inl err \<Rightarrow> invoke (RejectOf p) err c1)"

text \<open>\<open>describe\<close> hands the arguments it is called with to \<open>remoteCall\<close> as they are.\<close>

definition describe :: "jsvalue list \<Rightarrow> nat \<Rightarrow> jsvalue + string \<Rightarrow> IMQClient \<Rightarrow> IMQClient" where
  "describe arguments p sent c = remoteCall arguments p sent c"

text \<open>The send call that a \<open>remoteCall\<close> made last: destination, message, delay.\<close>

definition last_send :: "IMQClient \<Rightarrow> string \<times> IMQRPCRequest \<times> jsnumber \<times> callback" where
  "last_send c = last (q_send_calls (imq c))"

section \<open>Fetching the description\<close>

record TypeDescription =
  td_properties :: "(string \<times> string \<times> bool) list"
  td_inherits :: "string option"
  td_indexType :: "string option"

record Description =
  service :: ServiceDescription
  types :: "(string \<times> TypeDescription) list"

text \<open>The error of the timer callback.\<close>

definition timed_out :: "string \<Rightarrow> jsvalue" where
  \<open>timed_out name =
     JError ''EvalError''
       (''Generate client error: service remote call timed-out! Is service "'' @ name @
        ''" running?'')\<close>

text \<open>
  \<open>getDescription\<close>. \<open>described\<close> is what \<open>client.describe()\<close> has delivered when the
  timer of \<open>options.timeout\<close> milliseconds runs out: the description, with which the
  call was fulfilled before that, or nothing. With a description the timer is cleared,
  the client destroyed and the promise resolved; with none the timer callback destroys
  the client and rejects. The result is how the returned promise settles (\<open>Inl\<close> the
  value it is rejected with), and the transient client as it is left; what \<open>describe\<close>
  itself adds to the client (a send call, a registry entry) is left out.
\<close>

definition getDescription ::
  "string \<Rightarrow> IMQClientOptions \<Rightarrow> string \<Rightarrow> nat \<Rightarrow> (string \<times> nat) list \<Rightarrow>
   Description option \<Rightarrow> (jsvalue + Description) \<times> IMQClient" where
  "getDescription name opts uuid new_id registry described =
     (let client = start (new_GeneratorClient opts (Some name) (Some (name @ ''Client''))
                            uuid new_id registry)
      in case described of
           Some description \<Rightarrow> (Inr description, destroy client)
         | None \<Rightarrow> (Inl (timed_out name), destroy client))"

text \<open>
  \<open>generator\<close> awaits \<open>getDescription\<close> and \<open>IMQClient.create\<close> awaits \<open>generator\<close>,
  neither with a handler, so a rejection passes through both. From a description the
  generator derives the two names and the method declarations; the rest of the module
  text and its compilation are left out, and the result kept here is what was derived.
\<close>

record GeneratedClient =
  gen_clientName :: string
  gen_namespaceName :: string
  gen_methods :: "string list"

definition generator ::
  "string \<Rightarrow> IMQClientOptions \<Rightarrow> string \<Rightarrow> nat \<Rightarrow> (string \<times> nat) list \<Rightarrow>
   Description option \<Rightarrow> (jsvalue + GeneratedClient) \<times> IMQClient" where
  "generator name opts uuid new_id registry described =
     (case getDescription name opts uuid new_id registry described of
        (Inl e, client) \<Rightarrow> (Inl e, client)
      | (Inr description, client) \<Rightarrow>
          (Inr \<lparr> gen_clientName = fst (generatedNames (service description)),
                 gen_namespaceName = snd (generatedNames (service description)),
                 gen_methods = map (\<lambda>(methodName, m). methodSource methodName m)
                                 (generatedMethods (service description)) \<rparr>,
           client))"

definition create ::
  "string \<Rightarrow> IMQClientOptions \<Rightarrow> string \<Rightarrow> nat \<Rightarrow> (string \<times> nat) list \<Rightarrow>
   Description option \<Rightarrow> (jsvalue + GeneratedClient) \<times> IMQClient" where
  "create name clientOptions uuid new_id registry described =
     generator name clientOptions uuid new_id registry described"

section \<open>Notions of the specification\<close>

text \<open>The number of nested outer \<open>Promise<...>\<close> wrappers of a type text, each
  recognised as \<open>cleanType\<close> recognises it.\<close>

fun layers_upto :: "nat \<Rightarrow> string \<Rightarrow> nat" where
  "layers_upto 0 t = 0"
| "layers_upto (Suc n) t =
     (case match_Promise t of None \<Rightarrow> 0 | Some inner \<Rightarrow> Suc (layers_upto n inner))"

definition wrapper_layers :: "string \<Rightarrow> nat" where
  "wrapper_layers t = layers_upto (length t) t"

text \<open>The scale of a unit in milliseconds, as the specification tabulates it.\<close>

fun unit_scale :: "delay_unit \<Rightarrow> rat" where
  "unit_scale U_ms = 1"
| "unit_scale U_s = 1000"
| "unit_scale U_m = 60000"
| "unit_scale U_h = 3600000"
| "unit_scale U_d = 86400000"

text \<open>Whether a value is an instance of \<open>IMQDelay\<close>.\<close>

fun is_delay :: "jsvalue \<Rightarrow> bool" where
  "is_delay (JDelay d) = True"
| "is_delay v = False"

text \<open>The parts of the send call that a \<open>remoteCall\<close> made.\<close>

definition sent_to :: "IMQClient \<Rightarrow> string" where
  "sent_to c = fst (last_send c)"

definition sent_message :: "IMQClient \<Rightarrow> IMQRPCRequest" where
  "sent_message c = fst (snd (last_send c))"

definition sent_delay :: "IMQClient \<Rightarrow> jsnumber" where
  "sent_delay c = fst (snd (snd (last_send c)))"

text \<open>Whether a text has no two white-space characters in a row.\<close>

fun no_adjacent_spaces :: "string \<Rightarrow> bool" where
  "no_adjacent_spaces (a # b # cs) = (\<not> (is_space a \<and> is_space b) \<and> no_adjacent_spaces (b # cs))"
| "no_adjacent_spaces cs = True"

section \<open>Sample inputs\<close>

definition sample_options :: IMQClientOptions where
  "sample_options =
     \<lparr> opt_path = ''./src/clients'', opt_write = True, opt_compile = True,
       opt_timeout = 30000 \<rparr>"

text \<open>A started client of a service \<open>Calc\<close> with no call pending.\<close>

definition idle_client :: IMQClient where
  "idle_client = start (init_IMQClient ''CalcClient'' sample_options None None ''host'' 0 [])"

text \<open>The same client with the call of promise 1 pending under the id \<open>msg-1\<close>.\<close>

definition waiting_client :: IMQClient where
  "waiting_client = remoteCall [JNumber (Finite 2), JString ''add''] 1 (Inr ''msg-1'') idle_client"

definition sample_request :: IMQRPCRequest where
  "sample_request =
     \<lparr> rq_from = ''CalcClient-host-0:client'', rq_method = JString ''add'',
       rq_args = [JNumber (Finite 2)] \<rparr>"

definition data_response :: IMQRPCResponse where
  "data_response =
     \<lparr> rs_to = ''msg-1'', rs_request = sample_request, rs_data = JNumber (Finite 4),
       rs_error = JNull \<rparr>"

definition error_response :: IMQRPCResponse where
  "error_response =
     \<lparr> rs_to = ''msg-1'', rs_request = sample_request, rs_data = JNull,
       rs_error = JObject [(''message'', JString ''boom'')] \<rparr>"

text \<open>A response to a call that this client has no entry for.\<close>

definition orphan_response :: IMQRPCResponse where
  "orphan_response =
     \<lparr> rs_to = ''msg-9'', rs_request = sample_request, rs_data = JNumber (Finite 4),
       rs_error = JNull \<rparr>"

text \<open>A client that listens to the event \<open>add\<close> and to the broadcast channel.\<close>

definition subscribed_client :: IMQClient where
  "subscribed_client = subscribe (addListener (JString ''add'') 0 waiting_client)"

text \<open>A method without arguments, and the method \<open>add(a: number, b: number)\<close>.\<close>

definition ping_method :: MethodDescription where
  "ping_method =
     \<lparr> m_arguments = [], m_description = '''',
       m_returns = \<lparr> ret_description = '''', ret_type = ''Boolean'', ret_tsType = ''boolean'' \<rparr> \<rparr>"

definition number_arg :: "string \<Rightarrow> ArgDescription" where
  "number_arg n =
     \<lparr> arg_description = '''', arg_name = n, arg_type = ''Number'', arg_tsType = ''number'',
       arg_isOptional = False \<rparr>"

definition add_method :: MethodDescription where
  "add_method =
     \<lparr> m_arguments = [number_arg ''a'', number_arg ''b''], m_description = '''',
       m_returns = \<lparr> ret_description = '''', ret_type = ''Promise'',
                     ret_tsType = ''Promise<number>'' \<rparr> \<rparr>"

definition sample_description :: Description where
  "sample_description =
     \<lparr> service = \<lparr> svc_name = ''CalcService'',
                   svc_methods = [(''add'', add_method), (''ping'', ping_method)] \<rparr>,
       types = [] \<rparr>"

text \<open>Methods whose declared return types are a nested wrapper, the bare \<open>Promise\<close>, an
  object type written over several lines, and a union that starts with a wrapper.\<close>

definition returning :: "string \<Rightarrow> MethodDescription" where
  "returning declared =
     \<lparr> m_arguments = [], m_description = '''',
       m_returns = \<lparr> ret_description = '''', ret_type = ''Promise'', ret_tsType = declared \<rparr> \<rparr>"

definition nested_method :: MethodDescription where
  "nested_method = returning ''Promise<Promise<number>>''"

definition bare_method :: MethodDescription where
  "bare_method = returning ''Promise''"

definition multiline_method :: MethodDescription where
  "multiline_method =
     returning (''{'' @ [CHR 0x0D, CHR 0x0A] @ ''    a: number;'' @ [CHR 0x0A] @ ''    b: string'' @
                [CHR 0x0A] @ ''}'')"

definition union_method :: MethodDescription where
  "union_method = returning ''Promise<a> | null''"

section \<open>Name derivation\<close>

lemma take_after_Cons:
  assumes "7 \<le> length cs"
  shows "take (length cs - 6) (c # cs) = c # take (length cs - 7) cs"
proof -
  have "length cs - 6 = Suc (length cs - 7)" using assms by simp
  then show ?thesis by simp
qed

lemma replace_Service_end_suffix:
  "replace_Service_end s =
     (if suffix ''Service'' s then take (length s - 7) s @ ''Client'' else s @ ''Client'')"
proof (induction s)
  case Nil
  show ?case by simp
next
  case (Cons c cs)
  show ?case
  proof (cases "c # cs = ''Service''")
    case True
    then show ?thesis by simp
  next
    case False
    have sfx: "suffix ''Service'' (c # cs) = suffix ''Service'' cs"
      using False by (auto simp: suffix_Cons)
    show ?thesis
    proof (cases "suffix ''Service'' cs")
      case True
      then have "7 \<le> length cs" using suffix_length_le by fastforce
      then have "take (length (c # cs) - 7) (c # cs) = c # take (length cs - 7) cs"
        using take_after_Cons by simp
      with True False sfx Cons.IH show ?thesis by simp
    next
      case no: False
      with False sfx Cons.IH show ?thesis by simp
    qed
  qed
qed

text \<open>
  C6 (as the spec states it, refuted): the namespace identifier is not the client name
  with its first character in lower case. For the service \<open>UserService\<close> the client is
  named \<open>UserClient\<close> and the namespace \<open>userService\<close>.
\<close>

theorem namespace_not_from_client_name_counterexample:
  "snd (generatedNames \<lparr> svc_name = ''UserService'', svc_methods = [] \<rparr>) \<noteq>
     lower_first (fst (generatedNames \<lparr> svc_name = ''UserService'', svc_methods = [] \<rparr>))"
  by (simp add: generatedNames_def clientName_def namespaceName_def lower_first_def
      toLowerCase_def)

text \<open>
  C6 (amended): the client type name is the service name with a trailing \<open>Service\<close>
  replaced by \<open>Client\<close>, or with \<open>Client\<close> appended when there is no such suffix; the
  namespace identifier is the service name itself (not the client name) with its first
  character in lower case.
\<close>

theorem generated_names_from_service_name:
  "fst (generatedNames svc) =
     (if suffix ''Service'' (svc_name svc)
      then take (length (svc_name svc) - 7) (svc_name svc) @ ''Client''
      else svc_name svc @ ''Client'')
   \<and> snd (generatedNames svc) = lower_first (svc_name svc)"
  by (simp add: generatedNames_def clientName_def namespaceName_def
      replace_Service_end_suffix)

theorem generated_names_from_service_name_witness:
  "fst (generatedNames (service sample_description)) = ''CalcClient''
   \<and> snd (generatedNames (service sample_description)) = ''calcService''"
proof -
  have "suffix ''Service'' ''CalcService''"
    by (rule suffixI [of _ "''Calc''"]) simp
  then show ?thesis
    using generated_names_from_service_name [of "service sample_description"]
    by (simp add: sample_description_def lower_first_def toLowerCase_def)
qed

section \<open>Return types\<close>

lemma lazy_group_eq:
  "lazy_group acc rest =
     (if rest \<noteq> [] \<and> last rest = CHR ''>'' then Some (acc @ butlast rest) else None)"
  by (induction rest arbitrary: acc) auto

lemma match_Promise_wrap:
  assumes "t \<noteq> []"
  shows "match_Promise (''Promise<'' @ t @ ''>'') = Some t"
proof -
  obtain c cs where t: "t = c # cs" using assms by (cases t) auto
  show ?thesis
    by (simp add: match_Promise_def t lazy_group_eq)
qed

lemma take_eq_prefix: "(take (length p) t = p) = prefix p t"
proof
  assume "take (length p) t = p"
  then show "prefix p t" using take_is_prefix [of "length p" t] by simp
next
  assume "prefix p t"
  then obtain zs where "t = p @ zs" by (auto simp: prefix_def)
  then show "take (length p) t = p" by simp
qed

lemma test_Promise_open_prefix: "test_Promise_open t = prefix ''Promise<'' t"
  using take_eq_prefix [of "''Promise<''" t] by (simp add: test_Promise_open_def eval_nat_numeral)

lemma match_Promise_Some_prefix:
  assumes "match_Promise t = Some g"
  shows "prefix ''Promise<'' t"
proof -
  have "take 8 t = ''Promise<''"
    using assms by (auto simp: match_Promise_def split: if_splits)
  then show ?thesis
    using test_Promise_open_prefix [of t] by (simp add: test_Promise_open_def)
qed

lemma match_Promise_Some_shape:
  assumes "match_Promise t = Some g"
  shows "t = ''Promise<'' @ g @ ''>'' \<and> g \<noteq> []"
proof -
  have open8: "take 8 t = ''Promise<''"
    using assms by (auto simp: match_Promise_def split: if_splits)
  obtain c cs where rest: "drop 8 t = c # cs" and grp: "lazy_group [c] cs = Some g"
    using assms open8 by (cases "drop 8 t") (auto simp: match_Promise_def)
  have cs: "cs \<noteq> []" "last cs = CHR ''>''" and g: "g = c # butlast cs"
    using grp by (auto simp: lazy_group_eq split: if_splits)
  have "cs = butlast cs @ ''>''"
    using cs by (metis append_butlast_last_id)
  then have "drop 8 t = g @ ''>''"
    using rest g by simp
  then have "t = ''Promise<'' @ g @ ''>''"
    using open8 append_take_drop_id [of 8 t] by simp
  then show ?thesis using g by simp
qed

lemma wrapper_layers_pos_prefix:
  assumes "0 < wrapper_layers t"
  shows "prefix ''Promise<'' t"
proof (cases "match_Promise t")
  case None
  then have "wrapper_layers t = 0"
    by (cases "length t") (simp_all add: wrapper_layers_def)
  with assms show ?thesis by simp
next
  case (Some g)
  then show ?thesis by (rule match_Promise_Some_prefix)
qed

lemma wrapper_layers_wrap_plain:
  assumes "t \<noteq> []" and "\<not> prefix ''Promise<'' t"
  shows "wrapper_layers (''Promise<'' @ t @ ''>'') = 1"
proof -
  let ?w = "''Promise<'' @ t @ ''>''"
  have none: "match_Promise t = None"
    using assms(2) match_Promise_Some_prefix by (cases "match_Promise t") auto
  have inner: "layers_upto k t = 0" for k
    using none by (cases k) simp_all
  have some: "match_Promise ?w = Some t"
    by (rule match_Promise_wrap [OF assms(1)])
  have step: "layers_upto (Suc k) ?w = Suc (layers_upto k t)" for k
    unfolding layers_upto.simps some by simp
  have "length ?w = Suc (length t + 8)" by simp
  then have "wrapper_layers ?w = layers_upto (Suc (length t + 8)) ?w"
    unfolding wrapper_layers_def by (rule arg_cong)
  then show ?thesis
    unfolding step inner by simp
qed

lemma promisedType_prefix:
  "promisedType t = (if prefix ''Promise<'' t then t else ''Promise<'' @ t @ ''>'')"
  by (simp add: promisedType_def test_Promise_open_prefix)

lemma promisedType_strip_and_wrap:
  assumes "\<not> prefix ''Promise<'' t \<or> match_Promise t \<noteq> None"
  shows "promisedType t = ''Promise<'' @ cleanType t @ ''>''"
proof (cases "match_Promise t")
  case None
  with assms have "\<not> prefix ''Promise<'' t" by simp
  with None show ?thesis by (simp add: promisedType_prefix cleanType_def)
next
  case (Some g)
  have shape: "t = ''Promise<'' @ g @ ''>''"
    using match_Promise_Some_shape [OF Some] by simp
  have "prefix ''Promise<'' t"
    by (rule match_Promise_Some_prefix [OF Some])
  then have "promisedType t = t" by (simp add: promisedType_prefix)
  moreover have "cleanType t = g" using Some by (simp add: cleanType_def)
  ultimately show ?thesis using shape by simp
qed

subsection \<open>The normalisation of the declared text\<close>

lemma replace_newlines_no_LF: "CHR 0x0A \<notin> set (replace_newlines s)"
  by (induction s rule: replace_newlines.induct) auto

lemma replace_newlines_id:
  "CHR 0x0A \<notin> set s \<Longrightarrow> replace_newlines s = s"
  by (induction s rule: replace_newlines.induct) auto

lemma collapse_spaces_subset: "set (collapse_spaces s) \<subseteq> insert (CHR 0x20) (set s)"
proof (induction s rule: collapse_spaces.induct)
  case (3 a b cs)
  show ?case
  proof (cases "is_space a \<and> is_space b")
    case True
    have "set (dropWhile is_space cs) \<subseteq> set cs" by (rule set_dropWhileD [THEN subsetI])
    with True 3(1) show ?thesis by auto
  next
    case False
    with 3(2) show ?thesis by auto
  qed
qed simp_all

lemma collapse_spaces_id:
  "\<forall>c \<in> set s. \<not> is_space c \<Longrightarrow> collapse_spaces s = s"
  by (induction s rule: collapse_spaces.induct) auto

lemma collapse_spaces_head:
  "\<not> is_space b \<Longrightarrow> \<exists>r. collapse_spaces (b # cs) = b # r"
  by (cases cs) auto

lemma collapse_spaces_nonempty: "s \<noteq> [] \<Longrightarrow> collapse_spaces s \<noteq> []"
  by (induction s rule: collapse_spaces.induct) auto

lemma dropWhile_head: "dropWhile P cs = x # xs \<Longrightarrow> \<not> P x"
  by (metis hd_dropWhile list.sel(1) list.distinct(1))

lemma collapse_spaces_no_adjacent: "no_adjacent_spaces (collapse_spaces s)"
proof (induction s rule: collapse_spaces.induct)
  case 1
  show ?case by simp
next
  case (2 a)
  show ?case by simp
next
  case (3 a b cs)
  show ?case
  proof (cases "is_space a \<and> is_space b")
    case True
    then have eq: "collapse_spaces (a # b # cs) =
        CHR 0x20 # collapse_spaces (dropWhile is_space cs)"
      by simp
    show ?thesis
    proof (cases "dropWhile is_space cs")
      case Nil
      show ?thesis unfolding eq Nil by simp
    next
      case (Cons x xs)
      then have nx: "\<not> is_space x" by (rule dropWhile_head)
      then obtain r where r: "collapse_spaces (x # xs) = x # r"
        using collapse_spaces_head by blast
      have "no_adjacent_spaces (collapse_spaces (dropWhile is_space cs))"
        using 3(1) True by simp
      then have "no_adjacent_spaces (x # r)"
        unfolding Cons r .
      then show ?thesis
        unfolding eq Cons r using nx by simp
    qed
  next
    case False
    obtain y r where r: "collapse_spaces (b # cs) = y # r"
      using collapse_spaces_nonempty [of "b # cs"] by (cases "collapse_spaces (b # cs)") auto
    have tail: "no_adjacent_spaces (y # r)"
      using 3(2) False r by simp
    show ?thesis
    proof (cases "is_space a")
      case True
      with False have nb: "\<not> is_space b" by simp
      then have "y = b" using collapse_spaces_head [of b cs] r by auto
      with False r tail nb show ?thesis by simp
    next
      case na: False
      with False r tail show ?thesis by simp
    qed
  qed
qed

lemma normalised_no_LF: "CHR 0x0A \<notin> set (collapse_spaces (replace_newlines s))"
  using collapse_spaces_subset [of "replace_newlines s"] replace_newlines_no_LF [of s]
  by auto

lemma normalised_id:
  assumes "\<forall>c \<in> set s. \<not> is_space c"
  shows "collapse_spaces (replace_newlines s) = s"
proof -
  have "is_space (CHR 0x0A)" by (simp add: is_space_def)
  with assms have "CHR 0x0A \<notin> set s" by blast
  then show ?thesis using assms by (simp add: replace_newlines_id collapse_spaces_id)
qed

text \<open>
  C5 (as the spec states it, refuted): a doubly wrapped declared type is generated as
  it is, with two nested wrappers; and a declared type that starts with \<open>Promise<\<close>
  without being one wrapper as a whole is generated as it is too, which is neither the
  text with one wrapper stripped and one re-applied nor a text with an outer wrapper.
\<close>

theorem promisedType_keeps_double_wrapper_counterexample:
  "promisedType ''Promise<Promise<number>>'' = ''Promise<Promise<number>>''
   \<and> wrapper_layers (promisedType ''Promise<Promise<number>>'') = 2
   \<and> methodReturnType nested_method = ''Promise<Promise<number>>''
   \<and> methodReturnType union_method = ''Promise<a> | null''
   \<and> wrapper_layers (methodReturnType union_method) = 0
   \<and> methodReturnType union_method \<noteq> ''Promise<'' @ cleanType ''Promise<a> | null'' @ ''>''"
  by (simp add: methodReturnType_def retType_def nested_method_def union_method_def
      returning_def is_space_def promisedType_def test_Promise_open_def wrapper_layers_def
      match_Promise_def cleanType_def)

text \<open>
  C5 (amended): let \<open>t\<close> be the declared return type text with every line break replaced
  by a space and every run of two or more white-space characters by one space (so \<open>t\<close>
  has no line feed and no two white-space characters in a row, and is the declared text
  itself when that has no white space), and let \<open>r\<close> be \<open>t\<close>, or \<open>Promise<any>\<close> when \<open>t\<close>
  is the bare \<open>Promise\<close>. The return type of the generated method is \<open>r\<close> itself when \<open>r\<close>
  starts with \<open>Promise<\<close>, and \<open>r\<close> inside one \<open>Promise<...>\<close> otherwise; it always starts
  with \<open>Promise<\<close>. Where \<open>r\<close> does not start with \<open>Promise<\<close>, or is as a whole one wrapper
  \<open>Promise<X>\<close> around a non-empty \<open>X\<close>, this is \<open>r\<close> with a single outer wrapper stripped
  (the type argument of \<open>remoteCall\<close>) and exactly one wrapper re-applied. A non-empty
  \<open>r\<close> that does not start with \<open>Promise<\<close> gets exactly one outer wrapper; an \<open>r\<close> that
  has outer wrappers, one or several, is generated unchanged, so a doubly wrapped type
  stays doubly wrapped.
\<close>

theorem generated_return_type:
  "(let t = collapse_spaces (replace_newlines (ret_tsType (m_returns m)));
        r = (if t = ''Promise'' then ''Promise<any>'' else t)
    in methodReturnType m = (if prefix ''Promise<'' r then r else ''Promise<'' @ r @ ''>'')
       \<and> methodCallType m = cleanType r
       \<and> prefix ''Promise<'' (methodReturnType m)
       \<and> (\<not> prefix ''Promise<'' r \<or> match_Promise r \<noteq> None \<longrightarrow>
            methodReturnType m = ''Promise<'' @ cleanType r @ ''>'')
       \<and> (r \<noteq> [] \<and> \<not> prefix ''Promise<'' r \<longrightarrow> wrapper_layers (methodReturnType m) = 1)
       \<and> (0 < wrapper_layers r \<longrightarrow> methodReturnType m = r)
       \<and> CHR 0x0A \<notin> set t
       \<and> no_adjacent_spaces t
       \<and> ((\<forall>c \<in> set (ret_tsType (m_returns m)). \<not> is_space c) \<longrightarrow>
            t = ret_tsType (m_returns m)))"
proof -
  define t where "t = collapse_spaces (replace_newlines (ret_tsType (m_returns m)))"
  define r where "r = (if t = ''Promise'' then ''Promise<any>'' else t)"
  have ret: "retType (m_returns m) = r"
    by (simp add: retType_def Let_def r_def t_def)
  have decl: "methodReturnType m = (if prefix ''Promise<'' r then r else ''Promise<'' @ r @ ''>'')"
    by (simp add: methodReturnType_def ret promisedType_prefix)
  have call: "methodCallType m = cleanType r"
    by (simp add: methodCallType_def ret)
  have starts: "prefix ''Promise<'' (methodReturnType m)"
    by (simp add: decl)
  have rewrap: "\<not> prefix ''Promise<'' r \<or> match_Promise r \<noteq> None \<longrightarrow>
      methodReturnType m = ''Promise<'' @ cleanType r @ ''>''"
    using promisedType_strip_and_wrap [of r] by (simp add: methodReturnType_def ret)
  have one: "r \<noteq> [] \<and> \<not> prefix ''Promise<'' r \<longrightarrow> wrapper_layers (methodReturnType m) = 1"
    using wrapper_layers_wrap_plain [of r] by (simp add: decl)
  have kept: "0 < wrapper_layers r \<longrightarrow> methodReturnType m = r"
    using wrapper_layers_pos_prefix [of r] by (simp add: decl)
  have no_lf: "CHR 0x0A \<notin> set t"
    unfolding t_def by (rule normalised_no_LF)
  have no_adj: "no_adjacent_spaces t"
    unfolding t_def by (rule collapse_spaces_no_adjacent)
  have same: "(\<forall>c \<in> set (ret_tsType (m_returns m)). \<not> is_space c) \<longrightarrow>
      t = ret_tsType (m_returns m)"
    unfolding t_def using normalised_id [of "ret_tsType (m_returns m)"] by blast
  have "methodReturnType m = (if prefix ''Promise<'' r then r else ''Promise<'' @ r @ ''>'')
       \<and> methodCallType m = cleanType r
       \<and> prefix ''Promise<'' (methodReturnType m)
       \<and> (\<not> prefix ''Promise<'' r \<or> match_Promise r \<noteq> None \<longrightarrow>
            methodReturnType m = ''Promise<'' @ cleanType r @ ''>'')
       \<and> (r \<noteq> [] \<and> \<not> prefix ''Promise<'' r \<longrightarrow> wrapper_layers (methodReturnType m) = 1)
       \<and> (0 < wrapper_layers r \<longrightarrow> methodReturnType m = r)
       \<and> CHR 0x0A \<notin> set t
       \<and> no_adjacent_spaces t
       \<and> ((\<forall>c \<in> set (ret_tsType (m_returns m)). \<not> is_space c) \<longrightarrow>
            t = ret_tsType (m_returns m))"
    using decl call starts rewrap one kept no_lf no_adj same by blast
  then show ?thesis
    unfolding Let_def r_def t_def .
qed

theorem generated_return_type_witness:
  "methodReturnType ping_method = ''Promise<boolean>''
   \<and> wrapper_layers (methodReturnType ping_method) = 1
   \<and> methodReturnType add_method = ''Promise<number>''
   \<and> methodReturnType add_method = ''Promise<'' @ cleanType ''Promise<number>'' @ ''>''
   \<and> methodCallType add_method = ''number''
   \<and> methodReturnType bare_method = ''Promise<any>''
   \<and> methodReturnType multiline_method = ''Promise<{ a: number; b: string }>''
   \<and> methodReturnType nested_method = ''Promise<Promise<number>>''"
proof -
  have t_ping: "collapse_spaces (replace_newlines (ret_tsType (m_returns ping_method))) = ''boolean''"
    by (simp add: ping_method_def is_space_def)
  have t_add: "collapse_spaces (replace_newlines (ret_tsType (m_returns add_method))) =
      ''Promise<number>''"
    by (simp add: add_method_def is_space_def)
  have t_bare: "collapse_spaces (replace_newlines (ret_tsType (m_returns bare_method))) = ''Promise''"
    by (simp add: bare_method_def returning_def is_space_def)
  have t_multi: "collapse_spaces (replace_newlines (ret_tsType (m_returns multiline_method))) =
      ''{ a: number; b: string }''"
    by (simp add: multiline_method_def returning_def is_space_def)
  have t_nested: "collapse_spaces (replace_newlines (ret_tsType (m_returns nested_method))) =
      ''Promise<Promise<number>>''"
    by (simp add: nested_method_def returning_def is_space_def)
  have m_add: "match_Promise ''Promise<number>'' = Some ''number''"
    by (simp add: match_Promise_def)
  have layers_nested: "0 < wrapper_layers ''Promise<Promise<number>>''"
    by (simp add: wrapper_layers_def match_Promise_def)
  have ping: "methodReturnType ping_method = ''Promise<boolean>''
      \<and> wrapper_layers (methodReturnType ping_method) = 1"
    using generated_return_type [of ping_method] unfolding Let_def t_ping
    by (elim conjE) simp
  have add: "methodReturnType add_method = ''Promise<number>''
      \<and> methodReturnType add_method = ''Promise<'' @ cleanType ''Promise<number>'' @ ''>''
      \<and> methodCallType add_method = ''number''"
    using generated_return_type [of add_method] m_add unfolding Let_def t_add
    by (elim conjE) (simp add: cleanType_def)
  have bare: "methodReturnType bare_method = ''Promise<any>''"
    using generated_return_type [of bare_method] unfolding Let_def t_bare
    by (elim conjE) simp
  have multi: "methodReturnType multiline_method = ''Promise<{ a: number; b: string }>''"
    using generated_return_type [of multiline_method] unfolding Let_def t_multi
    by (elim conjE) simp
  have nested: "methodReturnType nested_method = ''Promise<Promise<number>>''"
    using generated_return_type [of nested_method] layers_nested unfolding Let_def t_nested
    by (elim conjE) simp
  show ?thesis
    using ping add bare multi nested by blast
qed

section \<open>Generated parameters\<close>

lemma pushDelay_nonempty:
  assumes "args \<noteq> []"
  shows "pushDelay args =
           (if arg_type (last args) \<noteq> ''IMQDelay'' then args @ [delayArg] else args)"
  using assms by (simp add: pushDelay_def)

lemma add_method_parameters:
  "map arg_name (methodParams add_method) = [''a'', ''b'', ''delay'']"
  by (simp add: methodParams_def add_method_def pushDelay_def number_arg_def delayArg_def)

text \<open>
  C4 (the code at the failing input): a method declared without arguments is generated
  without any parameter: uncalled is pushed, since the last argument of an empty list is
  \<open>undefined\<close>. The generated declaration of \<open>ping\<close> reads \<open>public async ping():
  Promise<boolean>\<close>.
\<close>

theorem no_delay_parameter_without_arguments:
  "methodParams ping_method = []
   \<and> methodSource ''ping'' ping_method =
       ''        public async ping(): Promise<boolean> {'' @ [CHR 0x0A] @
       ''            return await this.remoteCall<boolean>(...arguments);'' @ [CHR 0x0A] @
       ''        }'' @ [CHR 0x0A, CHR 0x0A]"
  by (simp add: methodSource_def methodParams_def pushDelay_def methodReturnType_def
      methodCallType_def retType_def ping_method_def promisedType_def test_Promise_open_def
      cleanType_def match_Promise_def is_space_def eval_nat_numeral)

section \<open>The message handler\<close>

lemma idle_client_fields:
  "resolvers idle_client = Map.empty"
  "listeners idle_client = []"
  "invoked idle_client = []"
  "emitted idle_client = []"
  "serviceName idle_client = ''Calc''"
  "client_name idle_client = ''CalcClient-host-0:client''"
  by (simp_all add: idle_client_def start_def init_IMQClient_def Let_def or_else_def)

lemma onMessage_pending:
  assumes "resolvers c (rs_to message) = Some (resolve, reject)"
  shows "onMessage message c =
           (Normal,
            c\<lparr>resolvers := (resolvers c)(rs_to message := None),
              invoked := invoked c @
                [if truthy (rs_error message) then (reject, rs_error message)
                 else (resolve, rs_data message)]\<rparr>)"
  using assms by (simp add: onMessage_def invoke_def)

lemma onMessage_orphan:
  assumes "resolvers c (rs_to message) = None"
  shows "fst (onMessage message c) \<noteq> Normal
         \<and> invoked (snd (onMessage message c)) = invoked c
         \<and> resolvers (snd (onMessage message c)) = resolvers c"
  using assms by (simp add: onMessage_def emit_def)

text \<open>
  C1: a response whose \<open>to\<close> has an entry in the registry makes the handler complete
  normally, with the entry removed and exactly one callback called: the rejection
  callback with the error payload when that payload is truthy (as an error object is),
  the resolution callback with the data payload otherwise (as when the error is \<open>null\<close>
  or \<open>undefined\<close>). Any later response with the same \<open>to\<close> finds no entry: the handler
  does not complete normally and calls no callback.
\<close>

theorem onMessage_settles_pending_call_once:
  assumes "resolvers c (rs_to message) = Some (resolve, reject)"
  shows "onMessage message c =
           (Normal,
            c\<lparr>resolvers := (resolvers c)(rs_to message := None),
              invoked := invoked c @
                [if truthy (rs_error message) then (reject, rs_error message)
                 else (resolve, rs_data message)]\<rparr>)
         \<and> (rs_error message \<in> {JUndefined, JNull} \<longrightarrow>
               invoked (snd (onMessage message c)) = invoked c @ [(resolve, rs_data message)])
         \<and> (\<forall>fields. rs_error message = JObject fields \<longrightarrow>
               invoked (snd (onMessage message c)) = invoked c @ [(reject, JObject fields)])
         \<and> (\<forall>again. rs_to again = rs_to message \<longrightarrow>
               fst (onMessage again (snd (onMessage message c))) \<noteq> Normal \<and>
               invoked (snd (onMessage again (snd (onMessage message c)))) =
                 invoked (snd (onMessage message c)))"
proof -
  let ?c' = "snd (onMessage message c)"
  have first: "onMessage message c =
           (Normal,
            c\<lparr>resolvers := (resolvers c)(rs_to message := None),
              invoked := invoked c @
                [if truthy (rs_error message) then (reject, rs_error message)
                 else (resolve, rs_data message)]\<rparr>)"
    by (rule onMessage_pending [OF assms])
  have gone: "resolvers ?c' (rs_to message) = None"
    by (simp add: first)
  have second: "fst (onMessage again ?c') \<noteq> Normal \<and>
                invoked (snd (onMessage again ?c')) = invoked ?c'"
    if "rs_to again = rs_to message" for again
    using onMessage_orphan [of ?c' again] gone that by simp
  have absent: "rs_error message \<in> {JUndefined, JNull} \<longrightarrow>
      invoked (snd (onMessage message c)) = invoked c @ [(resolve, rs_data message)]"
    by (auto simp: first)
  have present: "\<forall>fields. rs_error message = JObject fields \<longrightarrow>
      invoked (snd (onMessage message c)) = invoked c @ [(reject, JObject fields)]"
    by (simp add: first)
  show ?thesis
    using first absent present second by blast
qed

theorem onMessage_settles_pending_call_once_witness:
  "resolvers waiting_client (rs_to data_response) = Some (ResolveOf 1, RejectOf 1)
   \<and> fst (onMessage data_response waiting_client) = Normal
   \<and> invoked (snd (onMessage data_response waiting_client)) = [(ResolveOf 1, JNumber (Finite 4))]
   \<and> resolvers (snd (onMessage data_response waiting_client)) ''msg-1'' = None
   \<and> invoked (snd (onMessage error_response waiting_client)) =
       [(RejectOf 1, JObject [(''message'', JString ''boom'')])]
   \<and> fst (onMessage error_response (snd (onMessage data_response waiting_client))) \<noteq> Normal
   \<and> invoked (snd (onMessage error_response (snd (onMessage data_response waiting_client)))) =
       [(ResolveOf 1, JNumber (Finite 4))]"
proof -
  have pending: "resolvers waiting_client ''msg-1'' = Some (ResolveOf 1, RejectOf 1)"
    by (simp add: waiting_client_def remoteCall_def pop_def)
  have uncalled: "invoked waiting_client = []"
    by (simp add: waiting_client_def remoteCall_def pop_def imq_send_def idle_client_fields)
  have to_d: "rs_to data_response = ''msg-1''" and to_e: "rs_to error_response = ''msg-1''"
    by (simp_all add: data_response_def error_response_def)
  have e_d: "\<not> truthy (rs_error data_response)" and d_d: "rs_data data_response = JNumber (Finite 4)"
    by (simp_all add: data_response_def)
  have e_e: "truthy (rs_error error_response)"
    and v_e: "rs_error error_response = JObject [(''message'', JString ''boom'')]"
    by (simp_all add: error_response_def)
  have pending_d: "resolvers waiting_client (rs_to data_response) = Some (ResolveOf 1, RejectOf 1)"
    and pending_e: "resolvers waiting_client (rs_to error_response) = Some (ResolveOf 1, RejectOf 1)"
    using pending to_d to_e by simp_all
  note by_data = onMessage_settles_pending_call_once [OF pending_d]
  note by_error = onMessage_settles_pending_call_once [OF pending_e]
  have d1: "fst (onMessage data_response waiting_client) = Normal
      \<and> invoked (snd (onMessage data_response waiting_client)) = [(ResolveOf 1, JNumber (Finite 4))]
      \<and> resolvers (snd (onMessage data_response waiting_client)) ''msg-1'' = None"
    using by_data by (simp add: uncalled to_d e_d d_d)
  have d2: "fst (onMessage error_response (snd (onMessage data_response waiting_client))) \<noteq> Normal \<and>
      invoked (snd (onMessage error_response (snd (onMessage data_response waiting_client)))) =
        invoked (snd (onMessage data_response waiting_client))"
  proof -
    have "rs_to error_response = rs_to data_response"
      using to_d to_e by simp
    with by_data show ?thesis by blast
  qed
  have e1: "invoked (snd (onMessage error_response waiting_client)) =
      [(RejectOf 1, JObject [(''message'', JString ''boom'')])]"
    using by_error by (simp add: uncalled to_e e_e v_e)
  show ?thesis
    using pending to_d d1 d2 e1 by simp
qed

text \<open>
  C2 (the code at the failing input): for a response that has no entry in the registry
  the handler emits the event named after the method of the request, with the whole
  response, and then throws a \<open>TypeError\<close>: it destructures the missing entry. It does
  not complete normally.
\<close>

theorem onMessage_orphan_emits_then_throws:
  "resolvers idle_client (rs_to orphan_response) = None
   \<and> onMessage orphan_response idle_client =
       (Throw (JError ''TypeError'' ''undefined is not iterable''),
        idle_client\<lparr>emitted := [(JString ''add'', orphan_response)]\<rparr>)"
  by (simp add: onMessage_def emit_def not_iterable_def idle_client_fields
      orphan_response_def sample_request_def)

section \<open>Dispatching a call\<close>

lemma pop_snoc: "pop (xs @ [x]) = (x, xs)"
  by (simp add: pop_def)

lemma last_send_remoteCall:
  "last_send (remoteCall arguments p sent c) =
     (serviceName c,
      \<lparr> rq_from = client_name c,
        rq_method = fst (pop arguments),
        rq_args = (if snd (pop arguments) \<noteq> [] \<and> is_delay (last (snd (pop arguments)))
                   then butlast (snd (pop arguments)) else snd (pop arguments)) \<rparr>,
      (if snd (pop arguments) \<noteq> [] \<and> is_delay (last (snd (pop arguments)))
       then (case last (snd (pop arguments)) of
               JDelay d \<Rightarrow> if isFinite (ms d) \<and> \<not> less_than_zero (ms d) then ms d else Finite 0
             | _ \<Rightarrow> Finite 0)
       else Finite 0),
      RejectOf p)"
proof (cases "pop arguments")
  case (Pair meth rest)
  show ?thesis
  proof (cases "rest = []")
    case True
    with Pair show ?thesis
      by (cases sent)
        (simp_all add: remoteCall_def last_send_def imq_send_def invoke_def)
  next
    case False
    have fin: "isNaN n \<Longrightarrow> \<not> isFinite n" for n by (cases n) simp_all
    from False Pair show ?thesis
      by (cases sent; cases "last rest")
        (auto simp: remoteCall_def last_send_def imq_send_def invoke_def Let_def dest: fin)
  qed
qed

lemma clamped_is_finite:
  "\<exists>v. (if isFinite n \<and> \<not> less_than_zero n then n else Finite 0) = Finite v \<and> 0 \<le> v"
  by (cases n) auto

text \<open>
  C7: the \<open>ms\<close> of a delay is its timer for the unit \<open>ms\<close> and otherwise the product of
  the timer and the scale of the unit; the delay handed to the send primitive for a call
  whose last argument before the method name is that delay equals this \<open>ms\<close> when it is
  finite and not negative, and 0 otherwise; in every case it is a finite number that is
  not negative.
\<close>

theorem remoteCall_delay_in_milliseconds:
  "ms \<lparr> timer = t, unit = u \<rparr> = (if u = U_ms then t else js_times t (unit_scale u))
   \<and> sent_delay (remoteCall (as @ [JDelay d, m]) p sent c) =
       (if isFinite (ms d) \<and> \<not> less_than_zero (ms d) then ms d else Finite 0)
   \<and> (\<exists>v. sent_delay (remoteCall (as @ [JDelay d, m]) p sent c) = Finite v \<and> 0 \<le> v)"
proof -
  have scale: "ms \<lparr> timer = t, unit = u \<rparr> = (if u = U_ms then t else js_times t (unit_scale u))"
    by (cases u) (simp_all add: ms_def)
  have "pop (as @ [JDelay d, m]) = (m, as @ [JDelay d])"
    using pop_snoc [of "as @ [JDelay d]" m] by simp
  then have delay: "sent_delay (remoteCall (as @ [JDelay d, m]) p sent c) =
       (if isFinite (ms d) \<and> \<not> less_than_zero (ms d) then ms d else Finite 0)"
    by (simp add: sent_delay_def last_send_remoteCall)
  show ?thesis
    using scale delay clamped_is_finite [of "ms d"] by simp
qed

theorem remoteCall_delay_in_milliseconds_witness:
  "sent_delay (remoteCall [JDelay \<lparr> timer = Finite 1, unit = U_s \<rparr>, JString ''add''] 1
                 (Inr ''msg-1'') idle_client) = Finite 1000
   \<and> sent_delay (remoteCall [JDelay \<lparr> timer = Finite 2, unit = U_m \<rparr>, JString ''add''] 1
                 (Inr ''msg-1'') idle_client) = Finite 120000
   \<and> sent_delay (remoteCall [JDelay \<lparr> timer = Finite 1, unit = U_h \<rparr>, JString ''add''] 1
                 (Inr ''msg-1'') idle_client) = Finite 3600000
   \<and> sent_delay (remoteCall [JDelay \<lparr> timer = Finite 1, unit = U_d \<rparr>, JString ''add''] 1
                 (Inr ''msg-1'') idle_client) = Finite 86400000
   \<and> sent_delay (remoteCall [JDelay \<lparr> timer = NaN, unit = U_ms \<rparr>, JString ''add''] 1
                 (Inr ''msg-1'') idle_client) = Finite 0
   \<and> sent_delay (remoteCall [JDelay \<lparr> timer = Finite (- 5), unit = U_ms \<rparr>, JString ''add''] 1
                 (Inr ''msg-1'') idle_client) = Finite 0
   \<and> sent_delay (remoteCall [JDelay \<lparr> timer = PosInfinity, unit = U_ms \<rparr>, JString ''add''] 1
                 (Inr ''msg-1'') idle_client) = Finite 0"
proof -
  note at = remoteCall_delay_in_milliseconds
    [where as = "[]" and m = "JString ''add''" and p = 1 and sent = "Inr ''msg-1''"
       and c = idle_client and t = NaN and u = U_ms]
  have s: "sent_delay (remoteCall [JDelay \<lparr> timer = Finite 1, unit = U_s \<rparr>, JString ''add''] 1
                 (Inr ''msg-1'') idle_client) = Finite 1000"
    using at [where d = "\<lparr> timer = Finite 1, unit = U_s \<rparr>"]
    by (simp add: ms_def js_round_def)
  have m: "sent_delay (remoteCall [JDelay \<lparr> timer = Finite 2, unit = U_m \<rparr>, JString ''add''] 1
                 (Inr ''msg-1'') idle_client) = Finite 120000"
    using at [where d = "\<lparr> timer = Finite 2, unit = U_m \<rparr>"]
    by (simp add: ms_def js_round_def)
  have h: "sent_delay (remoteCall [JDelay \<lparr> timer = Finite 1, unit = U_h \<rparr>, JString ''add''] 1
                 (Inr ''msg-1'') idle_client) = Finite 3600000"
    using at [where d = "\<lparr> timer = Finite 1, unit = U_h \<rparr>"]
    by (simp add: ms_def js_round_def)
  have d: "sent_delay (remoteCall [JDelay \<lparr> timer = Finite 1, unit = U_d \<rparr>, JString ''add''] 1
                 (Inr ''msg-1'') idle_client) = Finite 86400000"
    using at [where d = "\<lparr> timer = Finite 1, unit = U_d \<rparr>"]
    by (simp add: ms_def js_round_def)
  have n: "sent_delay (remoteCall [JDelay \<lparr> timer = NaN, unit = U_ms \<rparr>, JString ''add''] 1
                 (Inr ''msg-1'') idle_client) = Finite 0"
    using at [where d = "\<lparr> timer = NaN, unit = U_ms \<rparr>"]
    by (simp add: ms_def)
  have neg: "sent_delay (remoteCall [JDelay \<lparr> timer = Finite (- 5), unit = U_ms \<rparr>, JString ''add''] 1
                 (Inr ''msg-1'') idle_client) = Finite 0"
    using at [where d = "\<lparr> timer = Finite (- 5), unit = U_ms \<rparr>"]
    by (simp add: ms_def)
  have inf: "sent_delay (remoteCall [JDelay \<lparr> timer = PosInfinity, unit = U_ms \<rparr>, JString ''add''] 1
                 (Inr ''msg-1'') idle_client) = Finite 0"
    using at [where d = "\<lparr> timer = PosInfinity, unit = U_ms \<rparr>"]
    by (simp add: ms_def)
  show ?thesis
    using s m h d n neg inf by blast
qed

text \<open>
  C9: when the send primitive throws, the call ends with exactly one callback called,
  the rejection callback of the promise of this call with the thrown value, and the
  registry is what it was: it has no new entry, and every entry it had is unchanged.
\<close>

theorem remoteCall_send_failure_rejects_only_this_call:
  "resolvers (remoteCall arguments p (Inl err) c) = resolvers c
   \<and> invoked (remoteCall arguments p (Inl err) c) = invoked c @ [(RejectOf p, err)]
   \<and> emitted (remoteCall arguments p (Inl err) c) = emitted c
   \<and> listeners (remoteCall arguments p (Inl err) c) = listeners c"
  by (cases "pop arguments")
    (simp add: remoteCall_def invoke_def Let_def split: prod.splits jsvalue.splits)

theorem remoteCall_send_failure_rejects_only_this_call_witness:
  "resolvers (remoteCall [JString ''sub''] 2 (Inl (JError ''Error'' ''connection lost''))
                waiting_client) ''msg-1'' = Some (ResolveOf 1, RejectOf 1)
   \<and> resolvers (remoteCall [JString ''sub''] 2 (Inl (JError ''Error'' ''connection lost''))
                waiting_client) = resolvers waiting_client
   \<and> invoked (remoteCall [JString ''sub''] 2 (Inl (JError ''Error'' ''connection lost''))
                waiting_client) = [(RejectOf 2, JError ''Error'' ''connection lost'')]"
proof -
  have pending: "resolvers waiting_client ''msg-1'' = Some (ResolveOf 1, RejectOf 1)"
    by (simp add: waiting_client_def remoteCall_def pop_def)
  have uncalled: "invoked waiting_client = []"
    by (simp add: waiting_client_def remoteCall_def pop_def imq_send_def idle_client_fields)
  show ?thesis
    using remoteCall_send_failure_rejects_only_this_call
      [of "[JString ''sub'']" 2 "JError ''Error'' ''connection lost''" waiting_client]
      pending uncalled
    by simp
qed

text \<open>
  C10: \<open>remoteCall\<close> takes the last of its arguments as the method name and then looks
  for a delay at the end of what is left: called with the arguments \<open>as\<close> followed by
  \<open>m\<close>, it sends to the service a request from this client with method \<open>m\<close> and with the
  arguments \<open>as\<close>, less their last element when that is a delay. \<open>describe\<close> passes its
  arguments on unchanged, so its caller must have put the method name last.
\<close>

theorem remoteCall_takes_last_argument_as_method:
  "sent_to (remoteCall (as @ [m]) p sent c) = serviceName c
   \<and> rq_from (sent_message (remoteCall (as @ [m]) p sent c)) = client_name c
   \<and> rq_method (sent_message (remoteCall (as @ [m]) p sent c)) = m
   \<and> rq_args (sent_message (remoteCall (as @ [m]) p sent c)) =
       (if as \<noteq> [] \<and> is_delay (last as) then butlast as else as)
   \<and> describe (as @ [m]) p sent c = remoteCall (as @ [m]) p sent c"
  by (simp add: sent_to_def sent_message_def last_send_remoteCall pop_def describe_def)

theorem remoteCall_takes_last_argument_as_method_witness:
  "rq_method (sent_message (describe [JDelay \<lparr> timer = Finite 1, unit = U_s \<rparr>,
       JString ''describe''] 1 (Inr ''msg-1'') idle_client)) = JString ''describe''
   \<and> rq_args (sent_message (describe [JDelay \<lparr> timer = Finite 1, unit = U_s \<rparr>,
       JString ''describe''] 1 (Inr ''msg-1'') idle_client)) = []
   \<and> rq_args (sent_message (remoteCall [JNumber (Finite 2), JNumber (Finite 3),
       JString ''add''] 1 (Inr ''msg-1'') idle_client)) = [JNumber (Finite 2), JNumber (Finite 3)]
   \<and> sent_to (remoteCall [JNumber (Finite 2), JNumber (Finite 3),
       JString ''add''] 1 (Inr ''msg-1'') idle_client) = ''Calc''"
  using remoteCall_takes_last_argument_as_method
      [of "[JDelay \<lparr> timer = Finite 1, unit = U_s \<rparr>]" "JString ''describe''" 1
          "Inr ''msg-1''" idle_client]
    remoteCall_takes_last_argument_as_method
      [of "[JNumber (Finite 2), JNumber (Finite 3)]" "JString ''add''" 1
          "Inr ''msg-1''" idle_client]
  by (simp add: idle_client_fields)

section \<open>Destroying a client\<close>

lemma forgetPid_absent: "(n, i) \<notin> set (forgetPid n i registry)"
  by (simp add: forgetPid_def)

lemma forgetPid_twice: "forgetPid n i (forgetPid n i registry) = forgetPid n i registry"
  by (simp add: forgetPid_def)

lemma destroy_fields:
  "imq (destroy c) = imq_destroy (imq_unsubscribe (imq c))"
  "pids (destroy c) = forgetPid (baseName c) (client_id c) (pids c)"
  "listeners (destroy c) = []"
  "baseName (destroy c) = baseName c"
  "client_id (destroy c) = client_id c"
  by (simp_all add: destroy_def Let_def)

text \<open>
  C8: \<open>destroy\<close> applied to a destroyed client changes nothing, and a destroyed client
  has no broadcast subscription, no listener of its own, no listener on its transport
  handle, and no entry in the registry of process identities. (The transport and
  \<open>forgetPid\<close> are the models above, which have no failing case.)
\<close>

theorem destroy_idempotent:
  "destroy (destroy c) = destroy c
   \<and> q_subscription (imq (destroy c)) = None
   \<and> q_message_listeners (imq (destroy c)) = 0
   \<and> \<not> q_started (imq (destroy c))
   \<and> listeners (destroy c) = []
   \<and> (baseName c, client_id c) \<notin> set (pids (destroy c))"
proof -
  have twice: "destroy (destroy c) = destroy c"
    by (simp add: destroy_def Let_def forgetPid_twice imq_destroy_def imq_unsubscribe_def)
  show ?thesis
    using twice forgetPid_absent [of "baseName c" "client_id c" "pids c"]
    by (simp add: destroy_fields imq_destroy_def imq_unsubscribe_def)
qed

theorem destroy_idempotent_witness:
  "q_subscription (imq subscribed_client) = Some ''Calc''
   \<and> listeners subscribed_client = [(JString ''add'', 0)]
   \<and> destroy (destroy subscribed_client) = destroy subscribed_client
   \<and> q_subscription (imq (destroy subscribed_client)) = None
   \<and> listeners (destroy subscribed_client) = []"
proof -
  have before: "q_subscription (imq subscribed_client) = Some ''Calc''
      \<and> listeners subscribed_client = [(JString ''add'', 0)]"
    by (simp add: subscribed_client_def subscribe_def addListener_def imq_subscribe_def
        waiting_client_def remoteCall_def pop_def imq_send_def idle_client_fields)
  show ?thesis
    using destroy_idempotent [of subscribed_client] before by simp
qed

section \<open>Fetching the description\<close>

text \<open>
  C3 (as the spec states it, refuted): when no description arrives in time for the
  service \<open>Calc\<close>, the promise is not rejected with a \<open>TimeoutError\<close> of the message
  \<open>service unreachable: is `Calc` running?\<close>.
\<close>

theorem getDescription_timeout_error_counterexample:
  "fst (getDescription ''Calc'' sample_options ''host'' 0 [] None) \<noteq>
     Inl (JError ''TimeoutError'' ''service unreachable: is `Calc` running?'')"
  by (simp add: getDescription_def timed_out_def Let_def)

text \<open>
  C3 (amended): when no description arrives within the timeout, \<open>getDescription\<close> is
  rejected with an \<open>EvalError\<close> whose message is \<open>Generate client error: service remote
  call timed-out! Is service "<name>" running?\<close>, with the name of the service; when
  the description arrives in time it is resolved with it. The rejection is also how
  \<open>IMQClient.create\<close> ends. Either way the transient
  client is destroyed: it has no broadcast subscription, its transport handle is
  released and has no listener, it has no listener of its own, and its process identity
  is out of the registry.
\<close>

theorem getDescription_timeout_and_cleanup:
  \<open>fst (getDescription name opts uuid new_id registry None) =
     Inl (JError ''EvalError''
            (''Generate client error: service remote call timed-out! Is service "'' @ name @
             ''" running?''))
   \<and> fst (create name opts uuid new_id registry None) =
       Inl (JError ''EvalError''
              (''Generate client error: service remote call timed-out! Is service "'' @ name @
               ''" running?''))
   \<and> fst (getDescription name opts uuid new_id registry (Some description)) = Inr description
   \<and> q_subscription (imq (snd (getDescription name opts uuid new_id registry described))) = None
   \<and> q_destroyed (imq (snd (getDescription name opts uuid new_id registry described)))
   \<and> \<not> q_started (imq (snd (getDescription name opts uuid new_id registry described)))
   \<and> q_message_listeners (imq (snd (getDescription name opts uuid new_id registry described))) = 0
   \<and> listeners (snd (getDescription name opts uuid new_id registry described)) = []
   \<and> (name @ ''Client'', new_id) \<notin>
       set (pids (snd (getDescription name opts uuid new_id registry described)))\<close>
proof -
  let ?client = "start (new_GeneratorClient opts (Some name) (Some (name @ ''Client''))
                   uuid new_id registry)"
  have left: "snd (getDescription name opts uuid new_id registry described) = destroy ?client"
    by (cases described) (simp_all add: getDescription_def Let_def)
  have base: "baseName ?client = name @ ''Client''" and ident: "client_id ?client = new_id"
    by (simp_all add: start_def new_GeneratorClient_def init_IMQClient_def Let_def or_else_def)
  have gone: "(name @ ''Client'', new_id) \<notin> set (pids (destroy ?client))"
    using forgetPid_absent [of "baseName ?client" "client_id ?client" "pids ?client"]
    by (simp add: destroy_fields base ident)
  have handle: "q_subscription (imq (destroy ?client)) = None
      \<and> q_destroyed (imq (destroy ?client)) \<and> \<not> q_started (imq (destroy ?client))
      \<and> q_message_listeners (imq (destroy ?client)) = 0 \<and> listeners (destroy ?client) = []"
    by (simp add: destroy_fields imq_destroy_def imq_unsubscribe_def)
  have outcome: "fst (getDescription name opts uuid new_id registry None) = Inl (timed_out name)
      \<and> fst (getDescription name opts uuid new_id registry (Some description)) = Inr description"
    by (simp add: getDescription_def Let_def)
  have passed: "fst (create name opts uuid new_id registry None) = Inl (timed_out name)"
    by (simp add: create_def generator_def getDescription_def Let_def)
  show ?thesis
    using outcome passed handle gone unfolding left timed_out_def by simp
qed

theorem getDescription_timeout_and_cleanup_witness:
  \<open>fst (getDescription ''Calc'' sample_options ''host'' 0 [] None) =
     Inl (JError ''EvalError''
            ''Generate client error: service remote call timed-out! Is service "Calc" running?'')
   \<and> fst (create ''Calc'' sample_options ''host'' 0 [] None) =
       Inl (JError ''EvalError''
              ''Generate client error: service remote call timed-out! Is service "Calc" running?'')
   \<and> fst (getDescription ''Calc'' sample_options ''host'' 0 [] (Some sample_description)) =
       Inr sample_description
   \<and> q_subscription (imq (snd (getDescription ''Calc'' sample_options ''host'' 0 [] None))) = None
   \<and> pids (snd (getDescription ''Calc'' sample_options ''host'' 0 [] None)) = []\<close>
proof -
  have reg: "pids (snd (getDescription ''Calc'' sample_options ''host'' 0 [] None)) = []"
    by (simp add: getDescription_def Let_def destroy_fields start_def new_GeneratorClient_def
        init_IMQClient_def or_else_def forgetPid_def)
  show ?thesis
    using getDescription_timeout_and_cleanup
      [of "''Calc''" sample_options "''host''" 0 "[]" sample_description None] reg
    by simp
qed


end
